theory Spec2Isabelle
  imports Complex_Main "HOL-Library.Log_Nat"
begin

section \<open>JavaScript values needed by the processing screen\<close>

text \<open>
  The processing screen looks steps up in object literals: \<^verbatim>\<open>messageToStep[message]\<close> and
  \<^verbatim>\<open>statusToStep[status]\<close>. A property read on an object literal finds the literal's own
  properties first and then the properties every object inherits from
  \<^verbatim>\<open>Object.prototype\<close>. The inherited ones are functions (and, for \<^verbatim>\<open>__proto__\<close>, the
  prototype object itself): all of them are truthy and convert to the number \<^verbatim>\<open>NaN\<close>.
\<close>

datatype jsval = Undefined | Number int | Inherited

datatype jsnum = Num int | NaN

definition objectPrototypeKeys :: "string list" where
  "objectPrototypeKeys =
     [''constructor'', ''hasOwnProperty'', ''isPrototypeOf'', ''propertyIsEnumerable'',
      ''toLocaleString'', ''toString'', ''valueOf'', ''__proto__'',
      ''__defineGetter__'', ''__defineSetter__'', ''__lookupGetter__'', ''__lookupSetter__'']"

text \<open>\<^verbatim>\<open>obj[key]\<close> for an object literal whose own properties are the pairs of \<open>obj\<close>.\<close>

definition js_get :: "(string \<times> int) list \<Rightarrow> string \<Rightarrow> jsval" where
  "js_get obj k =
     (case map_of obj k of
        Some n \<Rightarrow> Number n
      | None \<Rightarrow> if k \<in> set objectPrototypeKeys then Inherited else Undefined)"

fun truthy :: "jsval \<Rightarrow> bool" where
  "truthy Undefined = False"
| "truthy (Number n) = (n \<noteq> 0)"
| "truthy Inherited = True"

fun toNumber :: "jsval \<Rightarrow> jsnum" where
  "toNumber Undefined = NaN"
| "toNumber (Number n) = Num n"
| "toNumber Inherited = NaN"

text \<open>\<^verbatim>\<open>a > b\<close> on numbers: false as soon as one side is \<^verbatim>\<open>NaN\<close>.\<close>

fun js_gt :: "jsnum \<Rightarrow> jsnum \<Rightarrow> bool" where
  "js_gt (Num a) (Num b) = (a > b)"
| "js_gt _ _ = False"

fun js_ge :: "jsnum \<Rightarrow> jsnum \<Rightarrow> bool" where
  "js_ge (Num a) (Num b) = (a \<ge> b)"
| "js_ge _ _ = False"

text \<open>\<^verbatim>\<open>Math.max(a, b)\<close>: \<^verbatim>\<open>NaN\<close> as soon as one argument is.\<close>

fun Math_max :: "jsnum \<Rightarrow> jsnum \<Rightarrow> jsnum" where
  "Math_max (Num a) (Num b) = Num (max a b)"
| "Math_max _ _ = NaN"

text \<open>\<^verbatim>\<open>Math.round(x)\<close> rounds to the nearest integer, halves upwards.\<close>

definition Math_round :: "rat \<Rightarrow> int" where
  "Math_round x = \<lfloor>x + 1 / 2\<rfloor>"

section \<open>ProcessingScreen: state and step lookup\<close>

text \<open>The \<^verbatim>\<open>useState\<close> cells of the component. Times are \<^verbatim>\<open>Date.now()\<close> milliseconds.\<close>

record screen =
  status :: string
  targetProgress :: rat
  message :: string
  error :: "string option"
  lastProgressUpdate :: int
  highestStepReached :: int
  startTime :: int

definition messageToStep :: "(string \<times> int) list" where
  "messageToStep =
     [(''Extracting text from document...'', 1),
      (''Performing AI analysis with Gemini...'', 2),
      (''Creating document summary...'', 2),
      (''Performing deep analysis...'', 3),
      (''Indexing document for search...'', 5),
      (''Document analysis completed successfully!'', 5)]"

definition statusToStep :: "(string \<times> int) list" where
  "statusToStep = [(''processing'', 1), (''analyzing'', 2)]"

text \<open>
  The local variable \<^verbatim>\<open>currentStep\<close> of \<^verbatim>\<open>getCurrentStep\<close> after its if-chain, before the
  ratchet is applied.
\<close>

definition currentStep :: "string \<Rightarrow> string \<Rightarrow> jsval" where
  "currentStep st msg =
     (if st = ''completed'' then Number 5
      else if st = ''failed'' \<or> st = ''error'' then Number 0
      else if truthy (js_get messageToStep msg) then js_get messageToStep msg
      else if truthy (js_get statusToStep st) then js_get statusToStep st
      else Number 0)"

text \<open>
  \<^verbatim>\<open>getCurrentStep\<close>: the value returned, and the state after \<^verbatim>\<open>setHighestStepReached\<close>.
\<close>

definition getCurrentStep :: "screen \<Rightarrow> jsnum \<times> screen" where
  "getCurrentStep s =
     (let cur = currentStep (status s) (message s);
          s' = (case cur of
                  Number n \<Rightarrow>
                    if js_gt (Num n) (Num (highestStepReached s))
                    then s\<lparr>highestStepReached := n\<rparr> else s
                | _ \<Rightarrow> s)
      in (Math_max (toNumber cur) (Num (highestStepReached s)), s'))"

text \<open>
  \<^verbatim>\<open>getStepStatus(stepIndex)\<close>, as the step list renders it; its effect on the state is that
  of the \<^verbatim>\<open>getCurrentStep\<close> it calls. Both comparisons are false on \<^verbatim>\<open>NaN\<close>.
\<close>

datatype stepStatus = Completed | Active | Pending

definition getStepStatus :: "int \<Rightarrow> screen \<Rightarrow> stepStatus" where
  "getStepStatus stepIndex s =
     (case fst (getCurrentStep s) of
        Num k \<Rightarrow>
          if stepIndex < k then Completed else if stepIndex = k then Active else Pending
      | NaN \<Rightarrow> Pending)"

text \<open>The five entries of \<^verbatim>\<open>processingSteps\<close> (ids only) shown in the step list.\<close>

definition processingSteps :: "string list" where
  "processingSteps = [''upload'', ''extract'', ''summary'', ''deep'', ''index'']"

section \<open>ProcessingScreen: progress computation\<close>

definition stepWeights :: "rat list" where
  "stepWeights = [5, 15, 20, 25, 25, 10]"

definition stepDurations :: "rat list" where
  "stepDurations = [6, 18, 24, 30, 30, 12]"

text \<open>
  The loop \<^verbatim>\<open>for (let i = 0; i < currentStep; i++) totalProgress += stepWeights[i]\<close>, run
  for \<open>n\<close> rounds from \<^verbatim>\<open>totalProgress = 0\<close>. A read past the end of the array is
  \<^verbatim>\<open>undefined\<close> and turns the sum into \<^verbatim>\<open>NaN\<close>, written \<open>None\<close>.
\<close>

primrec completedWeight :: "nat \<Rightarrow> rat option" where
  "completedWeight 0 = Some 0"
| "completedWeight (Suc i) =
     (case completedWeight i of
        None \<Rightarrow> None
      | Some t \<Rightarrow> if i < length stepWeights then Some (t + stepWeights ! i) else None)"

text \<open>
  \<^verbatim>\<open>calculateProgress\<close> at \<^verbatim>\<open>Date.now() = now\<close>. The result is a number or \<^verbatim>\<open>NaN\<close>
  (\<open>None\<close>); the state returned is the one after the call of \<^verbatim>\<open>getCurrentStep\<close>.
  With a \<^verbatim>\<open>NaN\<close> step the loop body never runs and \<^verbatim>\<open>currentStep < stepWeights.length\<close>
  is false, so the result is \<^verbatim>\<open>Math.min(Math.round(0), 100)\<close>.
\<close>

definition calculateProgress :: "int \<Rightarrow> screen \<Rightarrow> rat option \<times> screen" where
  "calculateProgress now s =
     (let (cs, s') = getCurrentStep s in
      (case cs of
         NaN \<Rightarrow> Some (min (of_int (Math_round 0)) 100)
       | Num k \<Rightarrow>
           (case completedWeight (nat k) of
              None \<Rightarrow> None
            | Some completed \<Rightarrow>
                let totalProgress =
                  (if k < int (length stepWeights) then
                     let timeSpent = of_int (now - lastProgressUpdate s);
                         stepDuration = stepDurations ! nat k * 1000;
                         stepProgress = min (timeSpent / stepDuration) 1
                     in completed + stepWeights ! nat k * stepProgress
                   else completed)
                in Some (min (of_int (Math_round totalProgress)) 100)),
       s'))"

text \<open>
  The effect on \<^verbatim>\<open>[status, message]\<close>: raise \<^verbatim>\<open>targetProgress\<close> to the computed progress
  when that is larger.
\<close>

definition progressEffect :: "int \<Rightarrow> screen \<Rightarrow> screen" where
  "progressEffect now s =
     (let (newProgress, s') = calculateProgress now s in
      (case newProgress of
         Some p \<Rightarrow>
           if p > targetProgress s'
           then s'\<lparr>lastProgressUpdate := now, targetProgress := p\<rparr> else s'
       | None \<Rightarrow> s'))"

text \<open>
  The effect on \<^verbatim>\<open>[status, targetProgress, lastProgressUpdate]\<close>, first branch: with status
  \<^verbatim>\<open>completed\<close> it sets \<^verbatim>\<open>targetProgress\<close> to 100 and registers no interval.
\<close>

definition completedEffect :: "screen \<Rightarrow> screen" where
  "completedEffect s = (if status s = ''completed'' then s\<lparr>targetProgress := 100\<rparr> else s)"

text \<open>
  The callback of \<^verbatim>\<open>progressInterval\<close>, every 600 ms. The interval exists only while the
  status is not \<^verbatim>\<open>completed\<close>; it is registered again at every change of
  \<^verbatim>\<open>targetProgress\<close>, so \<^verbatim>\<open>prev\<close> and the \<^verbatim>\<open>targetProgress\<close> it read are the same value.
\<close>

definition progressTick :: "int \<Rightarrow> screen \<Rightarrow> screen" where
  "progressTick now s =
     (if status s = ''completed'' then s
      else
        let (newProgress, s') = calculateProgress now s in
        (case newProgress of
           Some p \<Rightarrow>
             if p > targetProgress s'
             then s'\<lparr>targetProgress := min (targetProgress s' + 1) p\<rparr>
             else if targetProgress s' < 99 \<and> status s' \<noteq> ''failed''
             then s'\<lparr>targetProgress := min (targetProgress s' + 3 / 10) 99\<rparr>
             else s'
         | None \<Rightarrow>
             if targetProgress s' < 99 \<and> status s' \<noteq> ''failed''
             then s'\<lparr>targetProgress := min (targetProgress s' + 3 / 10) 99\<rparr>
             else s'))"

section \<open>ProcessingScreen: polling\<close>

text \<open>The body of a status response; \<^verbatim>\<open>message\<close> may be absent.\<close>

record statusData =
  sd_status :: string
  sd_message :: "string option"

datatype response = Response statusData | RequestFailed

text \<open>The timers \<^verbatim>\<open>checkStatus\<close> registers, with their delay in milliseconds.\<close>

datatype timer = NavigateToDocument nat | CheckStatusAgain nat

text \<open>\<^verbatim>\<open>a || b\<close> on an optional string: the empty string and a missing one give \<open>b\<close>.\<close>

definition orElse :: "string option \<Rightarrow> string \<Rightarrow> string" where
  "orElse a b = (case a of None \<Rightarrow> b | Some x \<Rightarrow> if x = [] then b else x)"

text \<open>
  \<^verbatim>\<open>checkStatus\<close> once the request has settled: the state after its setters, and the
  timers it registered.
\<close>

definition checkStatus :: "response \<Rightarrow> screen \<Rightarrow> screen \<times> timer list" where
  "checkStatus r s =
     (case r of
        RequestFailed \<Rightarrow>
          (s\<lparr>error := Some ''Error checking document status. Please try again.''\<rparr>, [])
      | Response sd \<Rightarrow>
          let s1 = s\<lparr>status := sd_status sd,
                     message := orElse (sd_message sd) (sd_status sd)\<rparr>
          in if sd_status sd = ''completed'' then (s1, [NavigateToDocument 2000])
             else if sd_status sd = ''failed'' \<or> sd_status sd = ''error''
             then (s1\<lparr>error := Some (orElse (sd_message sd)
                      ''Document processing failed. Please try again.'')\<rparr>, [])
             else (s1, [CheckStatusAgain 2000]))"

text \<open>
  Rendering calls \<^verbatim>\<open>getCurrentStep\<close> (for the step list and the step counter) unless the
  error screen is returned first.
\<close>

definition render :: "screen \<Rightarrow> screen" where
  "render s = (if error s \<noteq> None then s else snd (getCurrentStep s))"

text \<open>
  What the component does with a settled status request at time \<open>now\<close>: the setters of
  \<^verbatim>\<open>checkStatus\<close>, the render, and then the effects whose dependencies changed.
\<close>

definition pollStep :: "int \<Rightarrow> response \<Rightarrow> screen \<Rightarrow> screen \<times> timer list" where
  "pollStep now r s =
     (let (s1, timers) = checkStatus r s;
          s2 = render s1;
          s3 = (if status s2 \<noteq> status s \<or> message s2 \<noteq> message s
                then progressEffect now s2 else s2);
          s4 = (if status s3 \<noteq> status s \<or> targetProgress s3 \<noteq> targetProgress s
                   \<or> lastProgressUpdate s3 \<noteq> lastProgressUpdate s
                then completedEffect s3 else s3)
      in (s4, timers))"

text \<open>The state of a freshly mounted component, and the state after its mount effects.\<close>

definition initialState :: "int \<Rightarrow> screen" where
  "initialState now =
     \<lparr>status = ''processing'', targetProgress = 0,
      message = ''Initializing document analysis...'', error = None,
      lastProgressUpdate = 0, highestStepReached = 0, startTime = now\<rparr>"

definition mount :: "int \<Rightarrow> screen" where
  "mount now = completedEffect (progressEffect now (render (initialState now)))"

datatype event = Poll int response | Tick int

fun step :: "screen \<Rightarrow> event \<Rightarrow> screen" where
  "step s (Poll now r) = fst (pollStep now r s)"
| "step s (Tick now) = progressTick now s"

definition run :: "screen \<Rightarrow> event list \<Rightarrow> screen" where
  "run s es = foldl step s es"

text \<open>The step \<^verbatim>\<open>getCurrentStep\<close> returns after each event of a session.\<close>

fun stepTrace :: "screen \<Rightarrow> event list \<Rightarrow> jsnum list" where
  "stepTrace s [] = []"
| "stepTrace s (e # es) = fst (getCurrentStep (step s e)) # stepTrace (step s e) es"

text \<open>
  \<^verbatim>\<open>calculateRemainingTime\<close>, in seconds, at \<^verbatim>\<open>Date.now() = now\<close> and with the animated
  percentage \<open>smooth\<close> that the hook returned for this render.
\<close>

definition estimatedDuration :: int where
  "estimatedDuration = 120000"

definition calculateRemainingTime :: "int \<Rightarrow> rat \<Rightarrow> screen \<Rightarrow> int" where
  "calculateRemainingTime now smooth s =
     (if status s = ''completed'' then 0
      else
        let elapsed = now - startTime s;
            progress = smooth / 100;
            estimatedTotal = estimatedDuration
        in if progress > 0
           then let remaining = max 0 (estimatedTotal - elapsed)
                in Math_round (of_int remaining / 1000)
           else Math_round (of_int estimatedDuration / 1000))"

text \<open>The values \<^verbatim>\<open>highestStepReached\<close> takes in a session.\<close>

definition knownStep :: "screen \<Rightarrow> bool" where
  "knownStep s \<longleftrightarrow> highestStepReached s \<in> {0, 1, 2, 3, 5}"

text \<open>
  The reachable states keep \<^verbatim>\<open>targetProgress\<close> at most 100, and exactly 100 once the status is
  \<^verbatim>\<open>completed\<close>.
\<close>

definition bounded :: "screen \<Rightarrow> bool" where
  "bounded s \<longleftrightarrow>
     targetProgress s \<le> 100 \<and> (status s = ''completed'' \<longrightarrow> targetProgress s = 100)"

section \<open>useSmoothProgress\<close>

text \<open>
  The hook computes with JavaScript numbers, which are IEEE 754 doubles: every subtraction,
  addition and division below is rounded to the nearest double, ties to the even significand.
  A double is kept as the rational it denotes. \<open>binary64\<close> rounds a rational to 53 significant
  bits; it covers the normal range (no overflow, no subnormal numbers), which the times and
  percentages of the hook are far inside.
\<close>

definition roundHalfEven :: "rat \<Rightarrow> int" where
  "roundHalfEven x =
     (let f = \<lfloor>x\<rfloor>; d = x - of_int f
      in if d < 1 / 2 then f else if 1 / 2 < d then f + 1 else if even f then f else f + 1)"

text \<open>
  The binary exponent of a number other than 0: the \<open>e\<close> for which \<open>|x|\<close> is at least
  \<open>2 powi e\<close> and below \<open>2 powi (e + 1)\<close>.
\<close>

definition exponent :: "rat \<Rightarrow> int" where
  "exponent x =
     (let (p, q) = quotient_of \<bar>x\<bar>;
          k = bitlen p - bitlen q
      in if 2 powi k \<le> \<bar>x\<bar> then k else k - 1)"

definition binary64 :: "rat \<Rightarrow> rat" where
  "binary64 x =
     (if x = 0 then 0
      else let ulp = 2 powi (exponent x - 52) in of_int (roundHalfEven (x / ulp)) * ulp)"

text \<open>
  The hook keeps the state cell \<^verbatim>\<open>smoothProgress\<close>. Its effect, run at every change of
  \<^verbatim>\<open>targetProgress\<close>, fixes \<^verbatim>\<open>startProgress\<close>, \<^verbatim>\<open>endProgress\<close> and \<^verbatim>\<open>startTime\<close> for the
  frames that follow; \<open>framePending\<close> says that \<^verbatim>\<open>animationRef\<close> holds a requested frame.
\<close>

record smooth =
  smoothProgress :: rat
  startProgress :: rat
  endProgress :: rat
  animationStart :: rat
  framePending :: bool

text \<open>The effect body at \<^verbatim>\<open>performance.now() = now\<close> for the new \<^verbatim>\<open>targetProgress\<close>.\<close>

definition smoothEffect :: "rat \<Rightarrow> rat \<Rightarrow> smooth \<Rightarrow> smooth" where
  "smoothEffect now target h =
     (let totalSteps = binary64 (target - smoothProgress h)
      in h\<lparr>startProgress := smoothProgress h, endProgress := target,
            animationStart := now, framePending := (totalSteps > 0)\<rparr>)"

text \<open>
  \<^verbatim>\<open>animate(currentTime)\<close>, the frame callback. \<^verbatim>\<open>totalSteps\<close> and \<^verbatim>\<open>stepDuration\<close> are the
  constants of the effect that requested the frame. The \<^verbatim>\<open>smoothProgress\<close> the callback
  compares with is the one its closure captured, which is \<^verbatim>\<open>startProgress\<close>. Nothing bounds
  \<^verbatim>\<open>elapsed\<close> from below.
\<close>

definition animate :: "rat \<Rightarrow> rat \<Rightarrow> smooth \<Rightarrow> smooth" where
  "animate duration currentTime h =
     (if \<not> framePending h then h
      else
        let elapsed = binary64 (currentTime - animationStart h);
            totalSteps = binary64 (endProgress h - startProgress h);
            stepDuration = binary64 (duration / totalSteps);
            steps = \<lfloor>binary64 (elapsed / stepDuration)\<rfloor>;
            newProgress = min (binary64 (startProgress h + of_int steps)) (endProgress h)
        in h\<lparr>smoothProgress :=
                (if newProgress \<noteq> startProgress h then newProgress else smoothProgress h),
              framePending := (newProgress < endProgress h)\<rparr>)"

datatype anim_event = TargetChanged rat rat | Frame rat

fun animStep :: "rat \<Rightarrow> smooth \<Rightarrow> anim_event \<Rightarrow> smooth" where
  "animStep duration h (TargetChanged now target) = smoothEffect now target h"
| "animStep duration h (Frame currentTime) = animate duration currentTime h"

definition animRun :: "rat \<Rightarrow> smooth \<Rightarrow> anim_event list \<Rightarrow> smooth" where
  "animRun duration h es = foldl (animStep duration) h es"

text \<open>The hook after its first effect, at \<^verbatim>\<open>targetProgress = 0\<close>.\<close>

definition initialSmooth :: "rat \<Rightarrow> smooth" where
  "initialSmooth now =
     smoothEffect now 0
       \<lparr>smoothProgress = 0, startProgress = 0, endProgress = 0,
        animationStart = now, framePending = False\<rparr>"

text \<open>
  The event sequences the component produces: \<^verbatim>\<open>targetProgress\<close> only grows from one run
  of the effect to the next.
\<close>

fun targetsGrow :: "rat \<Rightarrow> smooth \<Rightarrow> anim_event list \<Rightarrow> bool" where
  "targetsGrow duration h [] = True"
| "targetsGrow duration h (TargetChanged now target # es) =
     (endProgress h \<le> target \<and> targetsGrow duration (smoothEffect now target h) es)"
| "targetsGrow duration h (Frame currentTime # es) =
     targetsGrow duration (animate duration currentTime h) es"

section \<open>FileUpload\<close>

record fileObj =
  file_name :: string
  file_type :: string
  file_size :: nat

record upload =
  uploading :: bool
  uploadProgress :: nat
  uploadError :: "string option"
  selectedFile :: "fileObj option"
  filePreview :: "string option"
  customName :: string
  logoFile :: "fileObj option"
  selectedTheme :: string
  selectedFont :: string

definition allowedTypes :: "string list" where
  "allowedTypes =
     [''application/pdf'', ''image/jpeg'', ''image/png'', ''image/jpg'',
      ''application/vnd.openxmlformats-officedocument.wordprocessingml.document'',
      ''application/msword'']"

definition maxSize :: nat where
  "maxSize = 10 * 1024 * 1024"

text \<open>
  \<^verbatim>\<open>name.replace(/\.[^/.]+$/, '')\<close>: a final dot followed by at least one character, none of
  them a slash, is cut off with what follows it.
\<close>

definition removeExtension :: "string \<Rightarrow> string" where
  "removeExtension name =
     (let ext = rev (takeWhile (\<lambda>c. c \<noteq> CHR ''.'') (rev name))
      in if CHR ''.'' \<in> set name \<and> ext \<noteq> [] \<and> CHR ''/'' \<notin> set ext
         then take (length name - length ext - 1) name else name)"

text \<open>
  \<^verbatim>\<open>generateFilePreview\<close>: an image is read asynchronously and its preview arrives later;
  the other kinds get a fixed picture at once.
\<close>

definition startsWith :: "string \<Rightarrow> string \<Rightarrow> bool" where
  "startsWith pre str = (take (length pre) str = pre)"

definition generateFilePreview :: "fileObj \<Rightarrow> upload \<Rightarrow> upload" where
  "generateFilePreview f u =
     (if startsWith ''image/'' (file_type f) then u
      else if file_type f = ''application/pdf'' then u\<lparr>filePreview := Some ''/pdf-preview.svg''\<rparr>
      else if file_type f =
                ''application/vnd.openxmlformats-officedocument.wordprocessingml.document''
              \<or> file_type f = ''application/msword''
      then u\<lparr>filePreview := Some ''/word-preview.svg''\<rparr>
      else u\<lparr>filePreview := Some ''/document-preview.svg''\<rparr>)"

datatype request = UploadDocument fileObj string string string "fileObj option"

text \<open>\<^verbatim>\<open>onDrop(acceptedFiles)\<close>: the new state and the requests sent, of which there are none.\<close>

definition onDrop :: "fileObj list \<Rightarrow> upload \<Rightarrow> upload \<times> request list" where
  "onDrop acceptedFiles u =
     (case acceptedFiles of
        [] \<Rightarrow> (u, [])
      | f # _ \<Rightarrow>
          if file_type f \<notin> set allowedTypes
          then (u\<lparr>uploadError :=
                    Some ''Please upload a PDF, Word document, or image file (JPEG, PNG)''\<rparr>, [])
          else if file_size f > maxSize
          then (u\<lparr>uploadError := Some ''File size must be less than 10MB''\<rparr>, [])
          else ((generateFilePreview f
                   (u\<lparr>selectedFile := Some f, customName := removeExtension (file_name f)\<rparr>))
                \<lparr>uploadError := None\<rparr>, []))"

text \<open>
  \<^verbatim>\<open>handleUpload\<close> up to its \<^verbatim>\<open>await\<close>: the state after the setters, and the request sent.
\<close>

definition handleUpload :: "upload \<Rightarrow> upload \<times> request list" where
  "handleUpload u =
     (case selectedFile u of
        None \<Rightarrow> (u, [])
      | Some f \<Rightarrow>
          (u\<lparr>uploading := True, uploadError := None, uploadProgress := 0\<rparr>,
           [UploadDocument f (if customName u = [] then file_name f else customName u)
              (selectedTheme u) (selectedFont u) (logoFile u)]))"

text \<open>
  The dropzone, and with it \<^verbatim>\<open>onDrop\<close>, is rendered only while nothing is uploading and no
  file is selected.
\<close>

definition dropzoneShown :: "upload \<Rightarrow> bool" where
  "dropzoneShown u \<longleftrightarrow> \<not> uploading u \<and> selectedFile u = None"

text \<open>The \<^verbatim>\<open>useState\<close> defaults of the upload dialog.\<close>

definition initialUpload :: upload where
  "initialUpload =
     \<lparr>uploading = False, uploadProgress = 0, uploadError = None, selectedFile = None,
      filePreview = None, customName = [], logoFile = None,
      selectedTheme = ''default'', selectedFont = ''inter''\<rparr>"

section \<open>AuthContext\<close>

record mockUser =
  mu_email :: string
  mu_password :: string
  mu_name :: string

definition mockUsers :: "mockUser list" where
  "mockUsers =
     [\<lparr>mu_email = ''demo@example.com'', mu_password = ''demo123'', mu_name = ''Demo User''\<rparr>,
      \<lparr>mu_email = ''test@example.com'', mu_password = ''test123'', mu_name = ''Test User''\<rparr>]"

record userData =
  ud_email :: string
  ud_name :: string
  ud_provider :: string

text \<open>
  The provider's state cells and \<^verbatim>\<open>localStorage\<close>. A stored entry is kept as the object whose
  JSON text the code stores.
\<close>

record auth =
  auth_user :: "userData option"
  auth_loading :: bool
  auth_error :: "string option"
  localStorage :: "string \<rightharpoonup> userData"

text \<open>
  \<^verbatim>\<open>signInWithEmail\<close>: \<open>Inl\<close> carries the message of the error thrown, \<open>Inr\<close> the object
  returned; the state is the one after \<^verbatim>\<open>catch\<close> and \<^verbatim>\<open>finally\<close> have run.
\<close>

definition signInWithEmail :: "string \<Rightarrow> string \<Rightarrow> auth \<Rightarrow> (string + userData) \<times> auth" where
  "signInWithEmail email password a =
     (let a1 = a\<lparr>auth_error := None, auth_loading := True\<rparr>
      in case find (\<lambda>u. mu_email u = email \<and> mu_password u = password) mockUsers of
           None \<Rightarrow>
             (Inl ''Invalid email or password'',
              a1\<lparr>auth_error := Some ''Invalid email or password'', auth_loading := False\<rparr>)
         | Some u \<Rightarrow>
             let ud = \<lparr>ud_email = mu_email u, ud_name = mu_name u, ud_provider = ''email''\<rparr>
             in (Inr ud,
                 a1\<lparr>auth_user := Some ud,
                    localStorage := (localStorage a1)(''user'' \<mapsto> ud),
                    auth_loading := False\<rparr>))"

section \<open>Properties of the step lookup and the ratchet\<close>

lemma currentStep_cases:
  "currentStep st msg \<in> {Number 0, Number 1, Number 2, Number 3, Number 5, Inherited}"
  by (simp add: currentStep_def js_get_def messageToStep_def statusToStep_def)

lemma currentStep_own:
  assumes "msg \<notin> set objectPrototypeKeys" "st \<notin> set objectPrototypeKeys"
  shows "currentStep st msg \<in> {Number 0, Number 1, Number 2, Number 3, Number 5}"
  using assms
  by (simp add: currentStep_def js_get_def messageToStep_def statusToStep_def)

lemma getCurrentStep_fields [simp]:
  "status (snd (getCurrentStep s)) = status s"
  "message (snd (getCurrentStep s)) = message s"
  "error (snd (getCurrentStep s)) = error s"
  "targetProgress (snd (getCurrentStep s)) = targetProgress s"
  "lastProgressUpdate (snd (getCurrentStep s)) = lastProgressUpdate s"
  "startTime (snd (getCurrentStep s)) = startTime s"
  by (simp_all add: getCurrentStep_def Let_def split: jsval.splits)

lemma getCurrentStep_highest:
  "highestStepReached (snd (getCurrentStep s)) =
     (case currentStep (status s) (message s) of
        Number n \<Rightarrow> max n (highestStepReached s) | _ \<Rightarrow> highestStepReached s)"
  by (simp add: getCurrentStep_def Let_def split: jsval.splits)

lemma getCurrentStep_fst:
  "fst (getCurrentStep s) =
     Math_max (toNumber (currentStep (status s) (message s))) (Num (highestStepReached s))"
  by (simp add: getCurrentStep_def Let_def)

lemma highest_getCurrentStep_mono:
  "highestStepReached s \<le> highestStepReached (snd (getCurrentStep s))"
  by (simp add: getCurrentStep_highest split: jsval.splits)

section \<open>Properties of the progress computation\<close>

lemma calculateProgress_snd [simp]: "snd (calculateProgress now s) = snd (getCurrentStep s)"
  by (simp add: calculateProgress_def split_beta)

lemma calculateProgress_le_100: "fst (calculateProgress now s) = Some p \<Longrightarrow> p \<le> 100"
  by (auto simp: calculateProgress_def split_beta Let_def split: jsnum.splits option.splits if_splits)

lemma progressEffect_fields [simp]:
  "status (progressEffect now s) = status s"
  "message (progressEffect now s) = message s"
  "error (progressEffect now s) = error s"
  "startTime (progressEffect now s) = startTime s"
  "highestStepReached (progressEffect now s) = highestStepReached (snd (getCurrentStep s))"
  by (simp_all add: progressEffect_def split_beta split: option.splits)

lemma progressEffect_target:
  "targetProgress (progressEffect now s) =
     (case fst (calculateProgress now s) of
        Some p \<Rightarrow> if p > targetProgress s then p else targetProgress s
      | None \<Rightarrow> targetProgress s)"
  by (simp add: progressEffect_def split_beta split: option.splits)

lemma progressEffect_mono: "targetProgress s \<le> targetProgress (progressEffect now s)"
  by (simp add: progressEffect_target split: option.splits)

lemma progressEffect_le_100:
  "targetProgress s \<le> 100 \<Longrightarrow> targetProgress (progressEffect now s) \<le> 100"
  by (auto simp: progressEffect_target dest: calculateProgress_le_100 split: option.splits)

lemma progressTick_fields [simp]:
  "status (progressTick now s) = status s"
  "message (progressTick now s) = message s"
  "error (progressTick now s) = error s"
  "startTime (progressTick now s) = startTime s"
  "lastProgressUpdate (progressTick now s) = lastProgressUpdate s"
  by (simp_all add: progressTick_def split_beta split: option.splits)

lemma progressTick_highest:
  "highestStepReached s \<le> highestStepReached (progressTick now s)"
  by (simp add: progressTick_def split_beta highest_getCurrentStep_mono split: option.splits)

lemma progressTick_target:
  "targetProgress (progressTick now s) =
     (if status s = ''completed'' then targetProgress s
      else case fst (calculateProgress now s) of
        Some p \<Rightarrow>
          if p > targetProgress s then min (targetProgress s + 1) p
          else if targetProgress s < 99 \<and> status s \<noteq> ''failed''
          then min (targetProgress s + 3 / 10) 99 else targetProgress s
      | None \<Rightarrow>
          if targetProgress s < 99 \<and> status s \<noteq> ''failed''
          then min (targetProgress s + 3 / 10) 99 else targetProgress s)"
  by (auto simp: progressTick_def split_beta split: option.splits)

lemma progressTick_mono: "targetProgress s \<le> targetProgress (progressTick now s)"
  by (simp add: progressTick_target split: option.splits)

lemma progressTick_le_100:
  "targetProgress s \<le> 100 \<Longrightarrow> targetProgress (progressTick now s) \<le> 100"
  by (auto simp: progressTick_target dest: calculateProgress_le_100 split: option.splits)

lemma checkStatus_target [simp]: "targetProgress (fst (checkStatus r s)) = targetProgress s"
  by (simp add: checkStatus_def Let_def split: response.splits)

lemma checkStatus_lastUpdate [simp]:
  "lastProgressUpdate (fst (checkStatus r s)) = lastProgressUpdate s"
  by (simp add: checkStatus_def Let_def split: response.splits)

lemma checkStatus_highest [simp]:
  "highestStepReached (fst (checkStatus r s)) = highestStepReached s"
  by (simp add: checkStatus_def Let_def split: response.splits)

lemma render_fields [simp]:
  "status (render s) = status s"
  "message (render s) = message s"
  "error (render s) = error s"
  "targetProgress (render s) = targetProgress s"
  "lastProgressUpdate (render s) = lastProgressUpdate s"
  "startTime (render s) = startTime s"
  by (simp_all add: render_def)

lemma render_highest: "highestStepReached s \<le> highestStepReached (render s)"
  by (simp add: render_def highest_getCurrentStep_mono)

lemma completedEffect_fields [simp]:
  "status (completedEffect s) = status s"
  "message (completedEffect s) = message s"
  "error (completedEffect s) = error s"
  "highestStepReached (completedEffect s) = highestStepReached s"
  "lastProgressUpdate (completedEffect s) = lastProgressUpdate s"
  "startTime (completedEffect s) = startTime s"
  by (simp_all add: completedEffect_def)

lemma pollStep_target_mono:
  assumes "bounded s"
  shows "targetProgress s \<le> targetProgress (fst (pollStep now r s))"
proof -
  obtain s1 timers where c: "checkStatus r s = (s1, timers)" by (cases "checkStatus r s")
  have t1: "targetProgress s1 = targetProgress s" using c checkStatus_target[of r s] by simp
  define s3 where "s3 = (if status (render s1) \<noteq> status s \<or> message (render s1) \<noteq> message s
                then progressEffect now (render s1) else render s1)"
  have m3: "targetProgress s \<le> targetProgress s3"
    using progressEffect_mono[of "render s1" now] t1 by (simp add: s3_def)
  have b3: "targetProgress s3 \<le> 100"
    using progressEffect_le_100[of "render s1" now] t1 assms by (simp add: s3_def bounded_def)
  have "fst (pollStep now r s) = (if status s3 \<noteq> status s \<or> targetProgress s3 \<noteq> targetProgress s
                   \<or> lastProgressUpdate s3 \<noteq> lastProgressUpdate s
                then completedEffect s3 else s3)"
    by (simp add: pollStep_def c Let_def s3_def)
  then show ?thesis using m3 b3 by (auto simp: completedEffect_def)
qed

lemma checkStatus_status:
  "status (fst (checkStatus r s)) = (case r of Response sd \<Rightarrow> sd_status sd | RequestFailed \<Rightarrow> status s)"
  by (simp add: checkStatus_def Let_def split: response.splits)

lemma checkStatus_message:
  "message (fst (checkStatus r s)) =
     (case r of Response sd \<Rightarrow> orElse (sd_message sd) (sd_status sd) | RequestFailed \<Rightarrow> message s)"
  by (simp add: checkStatus_def Let_def split: response.splits)

lemma pollStep_status:
  "status (fst (pollStep now r s)) = status (fst (checkStatus r s))"
  by (simp add: pollStep_def split_beta Let_def)

lemma pollStep_message:
  "message (fst (pollStep now r s)) = message (fst (checkStatus r s))"
  by (simp add: pollStep_def split_beta Let_def)

lemma pollStep_timers: "snd (pollStep now r s) = snd (checkStatus r s)"
  by (simp add: pollStep_def split_beta Let_def)

lemma pollStep_error: "error (fst (pollStep now r s)) = error (fst (checkStatus r s))"
  by (simp add: pollStep_def split_beta Let_def)

lemma pollStep_highest: "highestStepReached s \<le> highestStepReached (fst (pollStep now r s))"
proof -
  have a: "highestStepReached s \<le> highestStepReached (render (fst (checkStatus r s)))"
    using render_highest[of "fst (checkStatus r s)"] by simp
  have b: "highestStepReached (render (fst (checkStatus r s)))
        \<le> highestStepReached (snd (getCurrentStep (render (fst (checkStatus r s)))))"
    by (rule highest_getCurrentStep_mono)
  show ?thesis using a b by (simp add: pollStep_def split_beta Let_def)
qed

lemma pollStep_bounded:
  assumes "bounded s"
  shows "bounded (fst (pollStep now r s))"
proof -
  define s1 where "s1 = fst (checkStatus r s)"
  define s3 where "s3 = (if status (render s1) \<noteq> status s \<or> message (render s1) \<noteq> message s
                then progressEffect now (render s1) else render s1)"
  have t1: "targetProgress s1 = targetProgress s" by (simp add: s1_def)
  have b3: "targetProgress s3 \<le> 100"
    using progressEffect_le_100[of "render s1" now] t1 assms by (simp add: s3_def bounded_def)
  have st3: "status s3 = status s1" by (simp add: s3_def)
  have eq: "fst (pollStep now r s) = (if status s3 \<noteq> status s \<or> targetProgress s3 \<noteq> targetProgress s
                   \<or> lastProgressUpdate s3 \<noteq> lastProgressUpdate s
                then completedEffect s3 else s3)"
    by (simp add: pollStep_def split_beta Let_def s3_def s1_def)
  show ?thesis
  proof (cases "status s3 \<noteq> status s \<or> targetProgress s3 \<noteq> targetProgress s
                   \<or> lastProgressUpdate s3 \<noteq> lastProgressUpdate s")
    case True
    then show ?thesis using eq b3 by (simp add: bounded_def completedEffect_def)
  next
    case False
    then show ?thesis using eq assms by (simp add: bounded_def)
  qed
qed

lemma progressTick_bounded: "bounded s \<Longrightarrow> bounded (progressTick now s)"
  using progressTick_le_100[of s now]
  by (auto simp: bounded_def progressTick_target)

lemma step_bounded: "bounded s \<Longrightarrow> bounded (step s e)"
  by (cases e) (simp_all add: pollStep_bounded progressTick_bounded)

lemma step_target_mono: "bounded s \<Longrightarrow> targetProgress s \<le> targetProgress (step s e)"
  by (cases e) (simp_all add: pollStep_target_mono progressTick_mono)

lemma step_highest_mono: "highestStepReached s \<le> highestStepReached (step s e)"
  by (cases e) (simp_all add: pollStep_highest progressTick_highest)

lemma mount_bounded: "bounded (mount now)"
  using progressEffect_le_100[of "render (initialState now)" now]
  by (simp add: mount_def bounded_def completedEffect_def initialState_def)

lemma run_bounded: "bounded s \<Longrightarrow> bounded (run s es)"
  unfolding run_def by (induction es arbitrary: s) (simp_all add: step_bounded)

lemma run_append: "run s (es @ es') = run (run s es) es'"
  by (simp add: run_def)

lemma run_target_mono: "bounded s \<Longrightarrow> targetProgress s \<le> targetProgress (run s es)"
proof (induction es arbitrary: s)
  case Nil
  then show ?case by (simp add: run_def)
next
  case (Cons e es)
  have "targetProgress s \<le> targetProgress (step s e)" using Cons.prems by (rule step_target_mono)
  also have "\<dots> \<le> targetProgress (run (step s e) es)"
    using Cons.IH[of "step s e"] Cons.prems by (simp add: step_bounded)
  finally show ?case by (simp add: run_def)
qed

lemma run_highest_mono: "highestStepReached s \<le> highestStepReached (run s es)"
proof (induction es arbitrary: s)
  case Nil
  then show ?case by (simp add: run_def)
next
  case (Cons e es)
  have "highestStepReached s \<le> highestStepReached (step s e)" by (rule step_highest_mono)
  also have "\<dots> \<le> highestStepReached (run (step s e) es)" by (rule Cons.IH)
  finally show ?case by (simp add: run_def)
qed




section \<open>Polling, the scenario of the specification, ticks and the time estimate\<close>

lemma currentStep_never_4: "currentStep st msg \<noteq> Number 4"
  using currentStep_cases[of st msg] by auto

lemma getCurrentStep_idem:
  "highestStepReached (snd (getCurrentStep (snd (getCurrentStep s))))
     = highestStepReached (snd (getCurrentStep s))"
  by (simp add: getCurrentStep_highest split: jsval.splits)

lemma checkStatus_error:
  "error (fst (checkStatus r s)) =
     (case r of
        RequestFailed \<Rightarrow> Some ''Error checking document status. Please try again.''
      | Response sd \<Rightarrow>
          if sd_status sd = ''failed'' \<or> sd_status sd = ''error''
          then Some (orElse (sd_message sd) ''Document processing failed. Please try again.'')
          else error s)"
  by (simp add: checkStatus_def Let_def split: response.splits)

lemma checkStatus_timers:
  "snd (checkStatus r s) =
     (case r of
        RequestFailed \<Rightarrow> []
      | Response sd \<Rightarrow>
          if sd_status sd = ''completed'' then [NavigateToDocument 2000]
          else if sd_status sd = ''failed'' \<or> sd_status sd = ''error'' then []
          else [CheckStatusAgain 2000])"
  by (simp add: checkStatus_def Let_def split: response.splits)

lemma pollStep_highest_eq:
  assumes "error (fst (checkStatus r s)) = None"
  shows "highestStepReached (fst (pollStep now r s))
           = highestStepReached (snd (getCurrentStep (fst (checkStatus r s))))"
  using assms
  by (simp add: pollStep_def split_beta Let_def render_def getCurrentStep_idem)

lemma pollStep_completed_target:
  assumes "bounded s" "sd_status sd = ''completed''"
  shows "targetProgress (fst (pollStep now (Response sd) s)) = 100"
proof -
  have "bounded (fst (pollStep now (Response sd) s))" using assms(1) by (rule pollStep_bounded)
  moreover have "status (fst (pollStep now (Response sd) s)) = ''completed''"
    using assms(2) by (simp add: pollStep_status checkStatus_status)
  ultimately show ?thesis by (simp add: bounded_def)
qed

lemma mount_facts:
  "status (mount t0) = ''processing''" "error (mount t0) = None"
  "highestStepReached (mount t0) = 1" "message (mount t0) = ''Initializing document analysis...''"
  by (simp_all add: mount_def initialState_def render_def getCurrentStep_highest getCurrentStep_idem
      currentStep_def js_get_def messageToStep_def statusToStep_def objectPrototypeKeys_def)

lemma poll_response_facts:
  fixes s :: screen and sd :: statusData and now :: int
  assumes "error s = None" "sd_status sd \<noteq> ''failed''" "sd_status sd \<noteq> ''error''"
  defines "s' \<equiv> step s (Poll now (Response sd))"
  shows "error s' = None"
    and "status s' = sd_status sd"
    and "message s' = orElse (sd_message sd) (sd_status sd)"
    and "highestStepReached s' =
           (case currentStep (sd_status sd) (orElse (sd_message sd) (sd_status sd)) of
              Number n \<Rightarrow> max n (highestStepReached s) | _ \<Rightarrow> highestStepReached s)"
proof -
  have e: "error (fst (checkStatus (Response sd) s)) = None"
    using assms(1-3) by (simp add: checkStatus_error)
  show "error s' = None" using e by (simp add: s'_def pollStep_error)
  show "status s' = sd_status sd" by (simp add: s'_def pollStep_status checkStatus_status)
  show "message s' = orElse (sd_message sd) (sd_status sd)"
    by (simp add: s'_def pollStep_message checkStatus_message)
  show "highestStepReached s' =
           (case currentStep (sd_status sd) (orElse (sd_message sd) (sd_status sd)) of
              Number n \<Rightarrow> max n (highestStepReached s) | _ \<Rightarrow> highestStepReached s)"
    using pollStep_highest_eq[OF e, of now]
    by (simp add: s'_def getCurrentStep_highest checkStatus_status checkStatus_message
        split: jsval.splits)
qed

lemma currentStep_status_only:
  "currentStep ''processing'' ''processing'' = Number 1"
  "currentStep ''analyzing'' ''analyzing'' = Number 2"
  "currentStep ''completed'' msg = Number 5"
  by (simp_all add: currentStep_def js_get_def messageToStep_def statusToStep_def
      objectPrototypeKeys_def)

lemma currentStep_message:
  assumes "st \<noteq> ''completed''" "st \<noteq> ''failed''" "st \<noteq> ''error''"
  shows "currentStep st ''Performing deep analysis...'' = Number 3"
    and "currentStep st ''Indexing document for search...'' = Number 5"
  using assms by (simp_all add: currentStep_def js_get_def messageToStep_def)

lemma Math_round_of_int: "Math_round (of_int n) = n"
  unfolding Math_round_def by (rule floor_unique) simp_all

lemma Math_round_numeral: "Math_round (numeral k) = numeral k"
  using Math_round_of_int[of "numeral k"] by simp

lemma Math_round_div_1000: "Math_round (of_int r / 1000) = (r + 500) div 1000"
proof -
  have "(of_int r / 1000 + 1 / 2 :: rat) = of_int (r + 500) / of_int 1000" by simp
  then show ?thesis unfolding Math_round_def by (simp only: floor_divide_of_int_eq)
qed

text \<open>
  Claim C3. A response with status \<^verbatim>\<open>completed\<close> registers exactly one timer, the navigation
  to the document view after 2000 ms, and no further status request, and \<^verbatim>\<open>targetProgress\<close>
  is exactly 100 after it; a response with status \<^verbatim>\<open>failed\<close> or \<^verbatim>\<open>error\<close> registers no timer at
  all (no request, no navigation) and stores the error message; any other status registers
  exactly the next status request.
\<close>

theorem checkStatus_terminal_transitions:
  fixes sd :: statusData
  shows
  "(sd_status sd = ''completed'' \<longrightarrow>
      snd (pollStep now (Response sd) (run (mount t0) es)) = [NavigateToDocument 2000] \<and>
      targetProgress (fst (pollStep now (Response sd) (run (mount t0) es))) = 100) \<and>
   (sd_status sd = ''failed'' \<or> sd_status sd = ''error'' \<longrightarrow>
      snd (pollStep now (Response sd) (run (mount t0) es)) = [] \<and>
      error (fst (pollStep now (Response sd) (run (mount t0) es)))
        = Some (orElse (sd_message sd) ''Document processing failed. Please try again.'')) \<and>
   (sd_status sd \<noteq> ''completed'' \<and> sd_status sd \<noteq> ''failed'' \<and> sd_status sd \<noteq> ''error'' \<longrightarrow>
      snd (pollStep now (Response sd) (run (mount t0) es)) = [CheckStatusAgain 2000])"
proof -
  have b: "bounded (run (mount t0) es)" by (simp add: run_bounded mount_bounded)
  show ?thesis
    using pollStep_completed_target[OF b, of sd now]
    by (auto simp: pollStep_timers checkStatus_timers pollStep_error checkStatus_error)
qed

theorem checkStatus_terminal_transitions_witness:
  "snd (pollStep 1001000 (Response \<lparr>sd_status = ''completed'', sd_message = None\<rparr>)
          (run (mount 1000000) [])) = [NavigateToDocument 2000] \<and>
   targetProgress (fst (pollStep 1001000 (Response \<lparr>sd_status = ''completed'', sd_message = None\<rparr>)
          (run (mount 1000000) []))) = 100 \<and>
   snd (pollStep 1001000 (Response \<lparr>sd_status = ''failed'', sd_message = Some ''No text found''\<rparr>)
          (run (mount 1000000) [])) = [] \<and>
   error (fst (pollStep 1001000 (Response \<lparr>sd_status = ''failed'', sd_message = Some ''No text found''\<rparr>)
          (run (mount 1000000) []))) = Some ''No text found'' \<and>
   snd (pollStep 1001000 (Response \<lparr>sd_status = ''analyzing'', sd_message = None\<rparr>)
          (run (mount 1000000) [])) = [CheckStatusAgain 2000]"
  using checkStatus_terminal_transitions
          [of "\<lparr>sd_status = ''completed'', sd_message = None\<rparr>" 1001000 1000000 "[]"]
        checkStatus_terminal_transitions
          [of "\<lparr>sd_status = ''failed'', sd_message = Some ''No text found''\<rparr>" 1001000 1000000 "[]"]
        checkStatus_terminal_transitions
          [of "\<lparr>sd_status = ''analyzing'', sd_message = None\<rparr>" 1001000 1000000 "[]"]
  by (simp add: orElse_def)

text \<open>
  Claim C5. The polls \<^verbatim>\<open>processing\<close>, \<^verbatim>\<open>analyzing\<close>, the message
  \<^verbatim>\<open>Performing deep analysis...\<close>, the message \<^verbatim>\<open>Indexing document for search...\<close> (each under
  any status that is not terminal) and \<^verbatim>\<open>completed\<close>, in this order and at any times, give
  the steps 1, 2, 3, 5, 5, and \<^verbatim>\<open>targetProgress\<close> ends at 100.
\<close>

theorem scenario_steps:
  fixes tm ta tb tc td te :: int and stc std :: string and m :: "string option"
  assumes "stc \<noteq> ''completed''" "stc \<noteq> ''failed''" "stc \<noteq> ''error''"
      and "std \<noteq> ''completed''" "std \<noteq> ''failed''" "std \<noteq> ''error''"
  defines "polls \<equiv>
     [Poll ta (Response \<lparr>sd_status = ''processing'', sd_message = None\<rparr>),
      Poll tb (Response \<lparr>sd_status = ''analyzing'', sd_message = None\<rparr>),
      Poll tc (Response \<lparr>sd_status = stc, sd_message = Some ''Performing deep analysis...''\<rparr>),
      Poll td (Response \<lparr>sd_status = std, sd_message = Some ''Indexing document for search...''\<rparr>),
      Poll te (Response \<lparr>sd_status = ''completed'', sd_message = m\<rparr>)]"
  shows "stepTrace (mount tm) polls = [Num 1, Num 2, Num 3, Num 5, Num 5] \<and>
         targetProgress (run (mount tm) polls) = 100"
proof -
  let ?r1 = "\<lparr>sd_status = ''processing'', sd_message = None\<rparr>"
  let ?r2 = "\<lparr>sd_status = ''analyzing'', sd_message = None\<rparr>"
  let ?r3 = "\<lparr>sd_status = stc, sd_message = Some ''Performing deep analysis...''\<rparr>"
  let ?r4 = "\<lparr>sd_status = std, sd_message = Some ''Indexing document for search...''\<rparr>"
  let ?r5 = "\<lparr>sd_status = ''completed'', sd_message = m\<rparr>"
  define s1 where "s1 = step (mount tm) (Poll ta (Response ?r1))"
  define s2 where "s2 = step s1 (Poll tb (Response ?r2))"
  define s3 where "s3 = step s2 (Poll tc (Response ?r3))"
  define s4 where "s4 = step s3 (Poll td (Response ?r4))"
  define s5 where "s5 = step s4 (Poll te (Response ?r5))"
  have f1: "error s1 = None" "status s1 = ''processing''" "message s1 = ''processing''"
           "highestStepReached s1 = 1"
    using poll_response_facts[of "mount tm" ?r1 ta]
    by (simp_all add: s1_def mount_facts orElse_def currentStep_status_only)
  have f2: "error s2 = None" "status s2 = ''analyzing''" "message s2 = ''analyzing''"
           "highestStepReached s2 = 2"
    using poll_response_facts[of s1 ?r2 tb] f1
    by (simp_all add: s2_def orElse_def currentStep_status_only)
  have f3: "error s3 = None" "status s3 = stc" "message s3 = ''Performing deep analysis...''"
           "highestStepReached s3 = 3"
    using poll_response_facts[of s2 ?r3 tc] f2 assms(1-3)
    by (simp_all add: s3_def orElse_def currentStep_message)
  have f4: "error s4 = None" "status s4 = std" "message s4 = ''Indexing document for search...''"
           "highestStepReached s4 = 5"
    using poll_response_facts[of s3 ?r4 td] f3 assms(4-6)
    by (simp_all add: s4_def orElse_def currentStep_message)
  have f5: "status s5 = ''completed''" "highestStepReached s5 = 5"
    using poll_response_facts[of s4 ?r5 te] f4
    by (simp_all add: s5_def currentStep_status_only)
  have tr: "stepTrace (mount tm) polls
      = [fst (getCurrentStep s1), fst (getCurrentStep s2), fst (getCurrentStep s3),
         fst (getCurrentStep s4), fst (getCurrentStep s5)]"
    unfolding polls_def s1_def s2_def s3_def s4_def s5_def by simp
  have g: "fst (getCurrentStep s1) = Num 1" "fst (getCurrentStep s2) = Num 2"
          "fst (getCurrentStep s3) = Num 3" "fst (getCurrentStep s4) = Num 5"
          "fst (getCurrentStep s5) = Num 5"
    using f1 f2 f3 f4 f5 assms(1-6)
    by (simp_all add: getCurrentStep_fst currentStep_status_only currentStep_message)
  have r: "run (mount tm) polls = s5"
    unfolding polls_def s1_def s2_def s3_def s4_def s5_def run_def by simp
  have b4: "bounded s4"
    unfolding s4_def s3_def s2_def s1_def by (intro step_bounded mount_bounded)
  have "targetProgress s5 = 100"
    using pollStep_completed_target[OF b4, of ?r5 te] by (simp add: s5_def)
  then show ?thesis using tr g r by simp
qed

theorem scenario_steps_witness:
  "stepTrace (mount 1000000)
     [Poll 1001000 (Response \<lparr>sd_status = ''processing'', sd_message = None\<rparr>),
      Poll 1003000 (Response \<lparr>sd_status = ''analyzing'', sd_message = None\<rparr>),
      Poll 1005000 (Response \<lparr>sd_status = ''analyzing'', sd_message = Some ''Performing deep analysis...''\<rparr>),
      Poll 1007000 (Response \<lparr>sd_status = ''analyzing'', sd_message = Some ''Indexing document for search...''\<rparr>),
      Poll 1009000 (Response \<lparr>sd_status = ''completed'', sd_message = None\<rparr>)]
     = [Num 1, Num 2, Num 3, Num 5, Num 5] \<and>
   targetProgress (run (mount 1000000)
     [Poll 1001000 (Response \<lparr>sd_status = ''processing'', sd_message = None\<rparr>),
      Poll 1003000 (Response \<lparr>sd_status = ''analyzing'', sd_message = None\<rparr>),
      Poll 1005000 (Response \<lparr>sd_status = ''analyzing'', sd_message = Some ''Performing deep analysis...''\<rparr>),
      Poll 1007000 (Response \<lparr>sd_status = ''analyzing'', sd_message = Some ''Indexing document for search...''\<rparr>),
      Poll 1009000 (Response \<lparr>sd_status = ''completed'', sd_message = None\<rparr>)]) = 100"
  using scenario_steps[of "''analyzing''" "''analyzing''" 1000000 1001000 1003000 1005000 1007000 1009000 None]
  by simp




text \<open>
  Against claim C7 as stated: ten seconds after the start, with the animated percentage
  still at 0, the estimate is 120 seconds, while \<^verbatim>\<open>max(0, 120000 - elapsed)\<close> in seconds
  is 110.
\<close>

theorem calculateRemainingTime_counterexample:
  "calculateRemainingTime 1010000 0 (initialState 1000000) = 120 \<and>
   Math_round (of_int (max 0 (estimatedDuration - (1010000 - startTime (initialState 1000000)))) / 1000)
     = 110"
  by (simp add: calculateRemainingTime_def initialState_def estimatedDuration_def Math_round_numeral)

text \<open>
  Claim C7, amended. With a status other than \<^verbatim>\<open>completed\<close> and an animated percentage above
  0, the estimate is \<^verbatim>\<open>max(0, estimatedDuration - elapsed)\<close> rounded to seconds, with the
  fixed \<^verbatim>\<open>estimatedDuration\<close> of 120 seconds; while the animated percentage is 0 the estimate
  is 120 seconds whatever time has elapsed, and with status \<^verbatim>\<open>completed\<close> it is 0.
\<close>

theorem calculateRemainingTime_cases:
  "calculateRemainingTime now smooth s =
     (if status s = ''completed'' then 0
      else if smooth > 0
      then Math_round (of_int (max 0 (estimatedDuration - (now - startTime s))) / 1000)
      else 120) \<and> estimatedDuration = 120 * 1000"
  by (simp add: calculateRemainingTime_def estimatedDuration_def Math_round_numeral Let_def)

theorem calculateRemainingTime_cases_witness:
  "calculateRemainingTime 1010000 35 (initialState 1000000) = 110 \<and>
   calculateRemainingTime 1010000 0 (initialState 1000000) = 120 \<and>
   calculateRemainingTime 1010000 100 ((initialState 1000000)\<lparr>status := ''completed''\<rparr>) = 0"
  using calculateRemainingTime_cases[of 1010000 35 "initialState 1000000"]
        calculateRemainingTime_cases[of 1010000 0 "initialState 1000000"]
        calculateRemainingTime_cases[of 1010000 100 "(initialState 1000000)\<lparr>status := ''completed''\<rparr>"]
  by (simp add: initialState_def estimatedDuration_def Math_round_numeral)

subsection \<open>What holds of the lookup and the ratchet on every input\<close>

text \<open>
  Whatever the polls carry, \<^verbatim>\<open>highestStepReached\<close> never decreases (\<open>run_highest_mono\<close>), the
  raw step is never 4, and the fifth entry of the step list is never the active one. When
  neither the status nor the message names an inherited property, \<^verbatim>\<open>getCurrentStep\<close> returns
  the new \<^verbatim>\<open>highestStepReached\<close>, which is at least the old one.
\<close>

lemma getCurrentStep_ratchet_own:
  assumes "status s \<notin> set objectPrototypeKeys" "message s \<notin> set objectPrototypeKeys"
  shows "\<exists>k. fst (getCurrentStep s) = Num k \<and> highestStepReached s \<le> k \<and>
             highestStepReached (snd (getCurrentStep s)) = k"
  using currentStep_own[OF assms(2) assms(1)]
  by (auto simp: getCurrentStep_fst getCurrentStep_highest)

lemma getCurrentStep_knownStep: "knownStep s \<Longrightarrow> knownStep (snd (getCurrentStep s))"
  using currentStep_cases[of "status s" "message s"]
  by (auto simp: knownStep_def getCurrentStep_highest)

lemma checkStatus_knownStep: "knownStep (fst (checkStatus r s)) = knownStep s"
  by (simp add: knownStep_def)

lemma render_knownStep: "knownStep s \<Longrightarrow> knownStep (render s)"
  by (simp add: render_def getCurrentStep_knownStep)

lemma progressEffect_knownStep: "knownStep s \<Longrightarrow> knownStep (progressEffect now s)"
  using getCurrentStep_knownStep[of s] by (simp add: knownStep_def)

lemma completedEffect_knownStep: "knownStep (completedEffect s) = knownStep s"
  by (simp add: knownStep_def)

lemma progressTick_knownStep: "knownStep s \<Longrightarrow> knownStep (progressTick now s)"
  using getCurrentStep_knownStep[of s]
  by (auto simp: knownStep_def progressTick_def split_beta split: option.splits)

lemma pollStep_knownStep:
  assumes "knownStep s"
  shows "knownStep (fst (pollStep now r s))"
proof -
  have "knownStep (render (fst (checkStatus r s)))"
    using assms by (simp add: render_knownStep checkStatus_knownStep)
  then show ?thesis
    by (simp add: pollStep_def split_beta Let_def progressEffect_knownStep
        completedEffect_knownStep)
qed

lemma step_knownStep: "knownStep s \<Longrightarrow> knownStep (step s e)"
  by (cases e) (simp_all add: pollStep_knownStep progressTick_knownStep)

lemma run_knownStep: "knownStep s \<Longrightarrow> knownStep (run s es)"
  unfolding run_def by (induction es arbitrary: s) (simp_all add: step_knownStep)

lemma mount_knownStep: "knownStep (mount now)"
  by (simp add: knownStep_def mount_facts)

lemma fifth_step_never_active: "getStepStatus 4 (run (mount tm) es) \<noteq> Active"
proof -
  have k: "knownStep (run (mount tm) es)" by (simp add: run_knownStep mount_knownStep)
  show ?thesis
    using k currentStep_cases[of "status (run (mount tm) es)" "message (run (mount tm) es)"]
    by (auto simp: getStepStatus_def getCurrentStep_fst knownStep_def split: jsnum.splits)
qed

lemma getStepStatus_NaN: "fst (getCurrentStep s) = NaN \<Longrightarrow> getStepStatus i s = Pending"
  by (simp add: getStepStatus_def)

text \<open>
  Claim C9, evaluated where the code departs from it. With the message \<^verbatim>\<open>constructor\<close>
  the read \<^verbatim>\<open>messageToStep[message]\<close> finds the function inherited from
  \<^verbatim>\<open>Object.prototype\<close>: the raw step is that function, not one of 0, 1, 2, 3, 5, and
  \<^verbatim>\<open>getCurrentStep\<close> returns \<^verbatim>\<open>NaN\<close>.
\<close>

theorem currentStep_inherited_key:
  "currentStep ''processing'' ''constructor'' = Inherited \<and>
   currentStep ''processing'' ''constructor'' \<notin> {Number 0, Number 1, Number 2, Number 3, Number 5} \<and>
   fst (getCurrentStep ((initialState 1000000)\<lparr>message := ''constructor''\<rparr>)) = NaN"
  by (simp add: getCurrentStep_fst initialState_def currentStep_def js_get_def messageToStep_def
      statusToStep_def objectPrototypeKeys_def)

text \<open>
  Claim C2, evaluated where the code departs from it. After step 3 has been returned, a poll
  whose message is \<^verbatim>\<open>constructor\<close> makes \<^verbatim>\<open>getCurrentStep\<close> return \<^verbatim>\<open>NaN\<close>, which is not
  at least 3.
\<close>

theorem getCurrentStep_inherited_key_trace:
  "stepTrace (mount 1000000)
     [Poll 1001000 (Response \<lparr>sd_status = ''processing'',
                              sd_message = Some ''Performing deep analysis...''\<rparr>),
      Poll 1003000 (Response \<lparr>sd_status = ''processing'', sd_message = Some ''constructor''\<rparr>)]
   = [Num 3, NaN] \<and> \<not> js_ge NaN (Num 3)"
  by code_simp

section \<open>Properties of the smooth progress animation\<close>

subsection \<open>Rounding to a double\<close>

lemma roundHalfEven_eqI:
  assumes "x - 1 / 2 < of_int n" "of_int n < x + 1 / 2"
  shows "roundHalfEven x = n"
proof -
  define f where "f = \<lfloor>x\<rfloor>"
  have a: "of_int f \<le> x" "x < of_int f + 1" unfolding f_def by linarith+
  show ?thesis
  proof (cases "x - of_int f < 1 / 2")
    case True
    have "(of_int n :: rat) < of_int (f + 1)" using True assms(2) by simp
    then have 1: "n < f + 1" by (simp only: of_int_less_iff)
    have "(of_int (f - 1) :: rat) < of_int n" using a assms(1) by simp
    then have 2: "f - 1 < n" by (simp only: of_int_less_iff)
    have "n = f" using 1 2 by simp
    then show ?thesis using True by (simp add: roundHalfEven_def Let_def f_def)
  next
    case False
    have "(of_int f :: rat) < of_int n" using False assms(1) by simp
    then have 1: "f < n" by (simp only: of_int_less_iff)
    have "(of_int n :: rat) < of_int (f + 2)" using a assms(2) by simp
    then have 2: "n < f + 2" by (simp only: of_int_less_iff)
    have n: "n = f + 1" using 1 2 by simp
    have "x - of_int f \<noteq> 1 / 2"
    proof
      assume "x - of_int f = 1 / 2"
      then have "x + 1 / 2 = of_int (f + 1)" by simp
      then show False using assms(2) n by simp
    qed
    then show ?thesis using False n by (simp add: roundHalfEven_def Let_def f_def)
  qed
qed

lemma exponent_unique:
  fixes a :: rat
  assumes "2 powi e \<le> a" "a < 2 powi (e + 1)" "2 powi e' \<le> a" "a < 2 powi (e' + 1)"
  shows "e = e'"
proof -
  have 1: "\<not> e' + 1 \<le> e"
  proof
    assume "e' + 1 \<le> e"
    then have "(2::rat) powi (e' + 1) \<le> 2 powi e" by (intro power_int_increasing) simp_all
    then show False using assms(1,4) by linarith
  qed
  have 2: "\<not> e + 1 \<le> e'"
  proof
    assume "e + 1 \<le> e'"
    then have "(2::rat) powi (e + 1) \<le> 2 powi e'" by (intro power_int_increasing) simp_all
    then show False using assms(2,3) by linarith
  qed
  show ?thesis using 1 2 by linarith
qed

lemma floorlog_rat_bounds:
  assumes "0 < p"
  shows "(2::rat) powi (int (floorlog 2 (nat p)) - 1) \<le> of_int p"
    and "(of_int p :: rat) < 2 powi (int (floorlog 2 (nat p)))"
proof -
  define n where "n = nat p"
  define b where "b = floorlog 2 n"
  have n: "0 < n" using assms by (simp add: n_def)
  have p: "p = int n" using assms by (simp add: n_def)
  have bnd: "2 ^ (b - 1) \<le> n \<and> n < 2 ^ b"
    unfolding b_def by (rule floorlog_bounds) (use n in simp_all)
  have pos: "0 < b"
  proof (rule ccontr)
    assume "\<not> 0 < b"
    then have "n < 1" using bnd by simp
    then show False using n by simp
  qed
  have e: "int b - 1 = int (b - 1)" using pos by simp
  have "(of_nat (2 ^ (b - 1)) :: rat) \<le> of_nat n"
    using bnd by (simp only: of_nat_le_iff)
  then have "(2::rat) ^ (b - 1) \<le> of_nat n" by simp
  then have "(2::rat) powi (int (b - 1)) \<le> of_int (int n)" by simp
  then have A: "(2::rat) powi (int b - 1) \<le> of_int (int n)" by (simp only: e)
  have pn: "int (nat p) = p" using assms by simp
  show "(2::rat) powi (int (floorlog 2 (nat p)) - 1) \<le> of_int p"
    using A unfolding b_def n_def pn .
  have "(of_nat n :: rat) < of_nat (2 ^ b)"
    using bnd by (simp only: of_nat_less_iff)
  then have "(of_nat n :: rat) < 2 ^ b" by simp
  then have B: "(of_int (int n) :: rat) < 2 powi (int b)" by simp
  show "(of_int p :: rat) < 2 powi (int (floorlog 2 (nat p)))"
    using B unfolding b_def n_def pn .
qed

lemma exponent_bounds:
  assumes "x \<noteq> 0"
  shows "2 powi exponent x \<le> \<bar>x\<bar>" and "\<bar>x\<bar> < 2 powi (exponent x + 1)"
proof -
  obtain p q where pq: "quotient_of \<bar>x\<bar> = (p, q)" by (cases "quotient_of \<bar>x\<bar>")
  have q: "0 < q" using pq by (rule quotient_of_denom_pos)
  have x: "\<bar>x\<bar> = of_int p / of_int q" using pq by (rule quotient_of_div)
  have "0 < \<bar>x\<bar>" using assms by simp
  then have p: "0 < p" using x q by (simp add: zero_less_divide_iff)
  define bp where "bp = bitlen p"
  define bq where "bq = bitlen q"
  have P: "(2::rat) powi (bp - 1) \<le> of_int p" "(of_int p :: rat) < 2 powi bp"
    using floorlog_rat_bounds[OF p] by (simp_all add: bp_def bitlen_def)
  have Q: "(2::rat) powi (bq - 1) \<le> of_int q" "(of_int q :: rat) < 2 powi bq"
    using floorlog_rat_bounds[OF q] by (simp_all add: bq_def bitlen_def)
  have qpos: "(0::rat) < of_int q" using q by simp
  have ppos: "(0::rat) < of_int p" using p by simp
  have lo: "(2::rat) powi (bp - bq - 1) < \<bar>x\<bar>"
  proof -
    have "(2::rat) powi (bp - bq - 1) = 2 powi (bp - 1 - bq)"
      by (rule arg_cong[where f = "\<lambda>k. 2 powi k"]) simp
    also have "\<dots> = 2 powi (bp - 1) / 2 powi bq"
      by (rule power_int_diff) simp
    also have "\<dots> \<le> of_int p / 2 powi bq" using P(1) by (simp add: divide_right_mono)
    also have "\<dots> < of_int p / of_int q"
      using Q(2) ppos qpos by (simp add: divide_strict_left_mono)
    finally show ?thesis using x by simp
  qed
  have hi: "\<bar>x\<bar> < (2::rat) powi (bp - bq + 1)"
  proof -
    have "of_int p / of_int q < (2::rat) powi bp / of_int q"
      using P(2) qpos by (simp add: divide_strict_right_mono)
    also have "\<dots> \<le> 2 powi bp / 2 powi (bq - 1)"
      using Q(1) by (intro frac_le) simp_all
    also have "\<dots> = 2 powi (bp - (bq - 1))"
      by (rule power_int_diff[symmetric]) simp
    also have "\<dots> = 2 powi (bp - bq + 1)"
      by (rule arg_cong[where f = "\<lambda>k. 2 powi k"]) simp
    finally show ?thesis using x by simp
  qed
  have e: "exponent x = (if 2 powi (bp - bq) \<le> \<bar>x\<bar> then bp - bq else bp - bq - 1)"
    by (simp add: exponent_def pq bp_def bq_def Let_def)
  show "2 powi exponent x \<le> \<bar>x\<bar>" using e lo by (auto simp: less_imp_le)
  show "\<bar>x\<bar> < 2 powi (exponent x + 1)" using e hi by (auto simp: not_le)
qed

lemma exponent_eqI:
  assumes "2 powi e \<le> \<bar>x\<bar>" "\<bar>x\<bar> < 2 powi (e + 1)"
  shows "exponent x = e"
proof -
  have "0 < (2::rat) powi e" by simp
  then have "0 < \<bar>x\<bar>" using assms(1) by linarith
  then have "x \<noteq> 0" by simp
  then show ?thesis
    using exponent_unique[OF exponent_bounds[of x] assms] by simp
qed

lemma binary64_eqI:
  assumes "2 powi e \<le> \<bar>x\<bar>" "\<bar>x\<bar> < 2 powi (e + 1)"
      and "x / 2 powi (e - 52) - 1 / 2 < of_int n" "of_int n < x / 2 powi (e - 52) + 1 / 2"
  shows "binary64 x = of_int n * 2 powi (e - 52)"
proof -
  have "0 < (2::rat) powi e" by simp
  then have "0 < \<bar>x\<bar>" using assms(1) by linarith
  then have "x \<noteq> 0" by simp
  then show ?thesis
    using exponent_eqI[OF assms(1,2)] roundHalfEven_eqI[OF assms(3,4)]
    by (simp add: binary64_def Let_def)
qed

subsection \<open>The doubles of the runs below\<close>

lemma binary64_0 [simp]: "binary64 0 = 0"
  by (simp add: binary64_def)

lemma d_3_10: "binary64 (3 / 10) = 5404319552844595 / 18014398509481984"
  using binary64_eqI[of "-2" "3/10" 5404319552844595] by simp

lemma d_a: "binary64 (5404319552844595 / 18014398509481984) = 5404319552844595 / 18014398509481984"
  using binary64_eqI[of "-2" "5404319552844595 / 18014398509481984" 5404319552844595] by simp

lemma d_m5: "binary64 (- 5) = - 5"
  using binary64_eqI[of 2 "- 5" "- 5629499534213120"] by simp

lemma d_m1: "binary64 (- 1) = - 1"
  using binary64_eqI[of 0 "- 1" "- 4503599627370496"] by simp

lemma d_3000: "binary64 3000 = 3000"
  using binary64_eqI[of 11 3000 6597069766656000] by simp

lemma d_sd: "binary64 (10808639105689190400 / 1080863910568919) = 10000"
  using binary64_eqI[of 13 "10808639105689190400 / 1080863910568919" 5497558138880000] by simp

lemma d_q1: "binary64 (- (1 / 2000)) = - (1152921504606847 / 2305843009213693952)"
  using binary64_eqI[of "-11" "- (1 / 2000)" "- 4611686018427388"] by simp

lemma d_q2: "binary64 (3000 / 10000) = 5404319552844595 / 18014398509481984"
  using binary64_eqI[of "-2" "3000 / 10000" 5404319552844595] by simp


lemma floor_q1: "\<lfloor>- (1152921504606847 / 2305843009213693952 :: rat)\<rfloor> = - 1"
  by (simp add: floor_eq_iff)

lemma floor_q2: "\<lfloor>5404319552844595 / 18014398509481984 :: rat\<rfloor> = 0"
  by (simp add: floor_eq_iff)

lemma d_31: "binary64 31 = 31"
  using binary64_eqI[of 4 31 8725724278030336] by simp

lemma d_30: "binary64 30 = 30"
  using binary64_eqI[of 4 30 8444249301319680] by simp

lemma d_sd31: "binary64 (3000 / 31) = 3404939234403097 / 35184372088832"
  using binary64_eqI[of 6 "3000 / 31" 6809878468806194] by simp

lemma d_q31: "binary64 (105553116266496000 / 3404939234403097) = 8725724278030335 / 281474976710656"
  using binary64_eqI[of 4 "105553116266496000 / 3404939234403097" 8725724278030335] by simp

lemma floor_q31: "\<lfloor>8725724278030335 / 281474976710656 :: rat\<rfloor> = 30"
  by (simp add: floor_eq_iff)


subsection \<open>The animation never overtakes its target\<close>

text \<open>
  Whatever the frame timestamps and whatever the rounding, \<^verbatim>\<open>smoothProgress\<close> is at most the
  \<^verbatim>\<open>targetProgress\<close> the hook was last given, as long as \<^verbatim>\<open>targetProgress\<close> only grows.
\<close>

lemma animate_below:
  "smoothProgress h \<le> endProgress h \<Longrightarrow>
   smoothProgress (animate duration t h) \<le> endProgress (animate duration t h)"
  by (simp add: animate_def Let_def)

lemma smoothEffect_below:
  "smoothProgress h \<le> endProgress h \<Longrightarrow> endProgress h \<le> target \<Longrightarrow>
   smoothProgress (smoothEffect now target h) \<le> endProgress (smoothEffect now target h)"
  by (simp add: smoothEffect_def Let_def)

lemma animRun_below:
  "smoothProgress h \<le> endProgress h \<Longrightarrow> targetsGrow duration h es \<Longrightarrow>
   smoothProgress (animRun duration h es) \<le> endProgress (animRun duration h es)"
proof (induction es arbitrary: h)
  case Nil
  then show ?case by (simp add: animRun_def)
next
  case (Cons e es)
  show ?case
  proof (cases e)
    case (TargetChanged now target)
    then have "smoothProgress (smoothEffect now target h) \<le> endProgress (smoothEffect now target h)"
      and "targetsGrow duration (smoothEffect now target h) es"
      using Cons.prems by (simp_all add: smoothEffect_below)
    then have "smoothProgress (animRun duration (smoothEffect now target h) es)
        \<le> endProgress (animRun duration (smoothEffect now target h) es)" by (rule Cons.IH)
    then show ?thesis using TargetChanged by (simp add: animRun_def)
  next
    case (Frame t)
    then have "smoothProgress (animate duration t h) \<le> endProgress (animate duration t h)"
      and "targetsGrow duration (animate duration t h) es"
      using Cons.prems animate_below[of h duration t] by simp_all
    then have "smoothProgress (animRun duration (animate duration t h) es)
        \<le> endProgress (animRun duration (animate duration t h) es)" by (rule Cons.IH)
    then show ?thesis using Frame by (simp add: animRun_def)
  qed
qed

text \<open>
  The roundings count: for a target of 31, the frame stamped exactly 3000 ms after the start
  divides 3000 by the double of 3000 / 31 and gets a quotient just below 31, so it takes 30
  steps and leaves \<^verbatim>\<open>smoothProgress\<close> exactly one percentage point below the target.
\<close>

lemma animate_31_steps_at_duration:
  "smoothProgress (animRun 3000 (initialSmooth 0) [TargetChanged 10 31, Frame 3010]) = 30 \<and>
   endProgress (animRun 3000 (initialSmooth 0) [TargetChanged 10 31, Frame 3010]) = 31"
  by (simp add: animRun_def initialSmooth_def smoothEffect_def animate_def Let_def
      d_31 d_30 d_3000 d_sd31 d_q31 floor_q31)


section \<open>Properties of the upload dialog and of the sign-in\<close>

text \<open>
  A file that reaches \<^verbatim>\<open>onDrop\<close> with a type that is not allowed, or with more than 10 MB,
  is turned away with the message of the failed check, and \<^verbatim>\<open>handleUpload\<close> afterwards
  sends nothing.
\<close>

lemma onDrop_rejects_invalid_file:
  assumes "dropzoneShown u"
      and "file_type f \<notin> set allowedTypes \<or> file_size f > maxSize"
  shows "snd (onDrop (f # rest) u) = [] \<and>
         uploadError (fst (onDrop (f # rest) u)) =
           Some (if file_type f \<notin> set allowedTypes
                 then ''Please upload a PDF, Word document, or image file (JPEG, PNG)''
                 else ''File size must be less than 10MB'') \<and>
         selectedFile (fst (onDrop (f # rest) u)) = None \<and>
         handleUpload (fst (onDrop (f # rest) u)) = (fst (onDrop (f # rest) u), [])"
  using assms by (auto simp: onDrop_def handleUpload_def dropzoneShown_def)

text \<open>
  Claim C8, evaluated where the code departs from it. The dropzone is configured with
  \<^verbatim>\<open>accept\<close>, and the component never reads the rejections: a dropped file that this filter
  turns away (\<^verbatim>\<open>setup.exe\<close> of type \<^verbatim>\<open>application/x-msdownload\<close>) is not among the
  \<^verbatim>\<open>acceptedFiles\<close>. \<^verbatim>\<open>onDrop\<close> is called with the empty list and returns at its first line:
  no file is selected and no request is sent, but no error message is set either.
\<close>

theorem onDrop_without_accepted_file:
  "onDrop [] initialUpload = (initialUpload, []) \<and>
   uploadError (fst (onDrop [] initialUpload)) = None \<and>
   selectedFile (fst (onDrop [] initialUpload)) = None \<and>
   handleUpload (fst (onDrop [] initialUpload)) = (initialUpload, [])"
  by (simp add: onDrop_def handleUpload_def initialUpload_def)

lemma find_mockUsers:
  "find (\<lambda>u. mu_email u = email \<and> mu_password u = password) mockUsers =
     (if email = ''demo@example.com'' \<and> password = ''demo123''
      then Some \<lparr>mu_email = ''demo@example.com'', mu_password = ''demo123'', mu_name = ''Demo User''\<rparr>
      else if email = ''test@example.com'' \<and> password = ''test123''
      then Some \<lparr>mu_email = ''test@example.com'', mu_password = ''test123'', mu_name = ''Test User''\<rparr>
      else None)"
  by (auto simp: mockUsers_def)

text \<open>
  Claim C10. \<^verbatim>\<open>signInWithEmail\<close> returns a user exactly when the pair of email and password
  is that of one of the two mock users; for every other pair it throws
  \<^verbatim>\<open>Invalid email or password\<close> and leaves the current user and \<^verbatim>\<open>localStorage\<close> as they
  were.
\<close>

theorem signInWithEmail_matches_mock_users:
  "((\<exists>ud. fst (signInWithEmail email password a) = Inr ud) \<longleftrightarrow>
      (email = ''demo@example.com'' \<and> password = ''demo123'') \<or>
      (email = ''test@example.com'' \<and> password = ''test123'')) \<and>
   (\<not> ((email = ''demo@example.com'' \<and> password = ''demo123'') \<or>
        (email = ''test@example.com'' \<and> password = ''test123'')) \<longrightarrow>
      fst (signInWithEmail email password a) = Inl ''Invalid email or password'' \<and>
      auth_user (snd (signInWithEmail email password a)) = auth_user a \<and>
      localStorage (snd (signInWithEmail email password a)) = localStorage a)"
  by (simp add: signInWithEmail_def find_mockUsers Let_def)

theorem signInWithEmail_matches_mock_users_witness:
  "fst (signInWithEmail ''demo@example.com'' ''demo123''
          \<lparr>auth_user = None, auth_loading = False, auth_error = None, localStorage = Map.empty\<rparr>)
     = Inr \<lparr>ud_email = ''demo@example.com'', ud_name = ''Demo User'', ud_provider = ''email''\<rparr> \<and>
   fst (signInWithEmail ''demo@example.com'' ''test123''
          \<lparr>auth_user = None, auth_loading = False, auth_error = None, localStorage = Map.empty\<rparr>)
     = Inl ''Invalid email or password'' \<and>
   auth_user (snd (signInWithEmail ''demo@example.com'' ''test123''
          \<lparr>auth_user = None, auth_loading = False, auth_error = None, localStorage = Map.empty\<rparr>))
     = None \<and>
   localStorage (snd (signInWithEmail ''demo@example.com'' ''test123''
          \<lparr>auth_user = None, auth_loading = False, auth_error = None, localStorage = Map.empty\<rparr>))
     ''user'' = None"
proof -
  let ?a = "\<lparr>auth_user = None, auth_loading = False, auth_error = None, localStorage = Map.empty\<rparr>"
  have ok: "fst (signInWithEmail ''demo@example.com'' ''demo123'' ?a)
     = Inr \<lparr>ud_email = ''demo@example.com'', ud_name = ''Demo User'', ud_provider = ''email''\<rparr>"
    by (simp add: signInWithEmail_def find_mockUsers Let_def)
  show ?thesis
    using signInWithEmail_matches_mock_users[of "''demo@example.com''" "''test123''" ?a]
          signInWithEmail_matches_mock_users[of "''demo@example.com''" "''demo123''" ?a] ok
    by simp
qed

end
